theory Spec2Isabelle
  imports Main "HOL-Library.Word"
begin

unbundle bit_operations_syntax

section \<open>Data model of input_processor_threshold_temp_layer.c\<close>

text \<open>
  The source file holds two revisions of the driver whose functions are the same line for
  line (they differ in comments and in the instantiation macro); the definitions below
  follow the first one. C \<open>int\<close> and \<open>int32_t\<close> are 32-bit words, \<open>int16_t\<close> 16-bit,
  \<open>int64_t\<close> 64-bit and \<open>uint8_t\<close> 8-bit words; signed comparisons are \<open><s\<close> and
  \<open>\<le>s\<close>, and \<open>sint\<close> reads a word as the signed number the C program sees. Signed
  arithmetic wraps around in two's complement, as it does on the 32-bit targets the
  firmware is built for.
\<close>

definition MAX_LAYERS :: nat where
  "MAX_LAYERS = 16"

text \<open>Event codes of Zephyr's input-event-codes.h, which the driver includes.\<close>

definition INPUT_EV_REL :: "8 word" where
  "INPUT_EV_REL = 2"

definition INPUT_REL_X :: "16 word" where
  "INPUT_REL_X = 0"

definition INPUT_REL_Y :: "16 word" where
  "INPUT_REL_Y = 1"

text \<open>Zephyr's \<open>struct input_event\<close>: the fields the driver reads.\<close>

record input_event =
  ev_type :: "8 word"
  code :: "16 word"
  val :: "32 word"

text \<open>
  ZMK's \<open>struct zmk_position_state_changed\<close>: the fields the driver reads
  (\<open>uint32_t position\<close>, \<open>bool state\<close>).
\<close>

record zmk_position_state_changed =
  position :: "32 word"
  state :: bool

text \<open>
  \<open>struct threshold_temp_layer_config\<close>. The flexible array \<open>excluded_positions\<close> with
  its length \<open>excluded_positions_len\<close> is a list.
\<close>

record threshold_temp_layer_config =
  require_prior_idle_ms :: "16 word"
  excluded_positions :: "8 word list"

text \<open>
  \<open>struct threshold_temp_layer_layer_data\<close>. The delayable work item \<open>disable_work\<close> is
  \<open>None\<close> while nothing is scheduled and \<open>Some t\<close> while a call of the handler is
  pending, \<open>t\<close> being the delay in milliseconds it was last scheduled with.
\<close>

record threshold_temp_layer_layer_data =
  accumulated_distance :: "32 word"
  active :: bool
  disable_work :: "16 word option"

text \<open>
  \<open>struct threshold_temp_layer_data\<close>, together with the two function-local statics
  \<open>pending_dx\<close> and \<open>pending_dy\<close> of \<open>threshold_temp_layer_handle_event\<close>, which live
  as long as the driver data does.
\<close>

record threshold_temp_layer_data =
  last_tap_time :: "64 word"
  layers :: "threshold_temp_layer_layer_data list"
  pending_dx :: "32 word"
  pending_dy :: "32 word"

text \<open>The calls into the keymap: \<open>zmk_keymap_layer_activate\<close> and \<open>zmk_keymap_layer_deactivate\<close>.\<close>

datatype effect = Activate nat | Deactivate nat

section \<open>calculate\_distance\<close>

text \<open>C's \<open>abs\<close> on a 32-bit int; \<open>abs(INT_MIN)\<close> wraps to \<open>INT_MIN\<close>.\<close>

definition abs32 :: "32 word \<Rightarrow> 32 word" where
  "abs32 x = (if x <s 0 then - x else x)"

definition calculate_distance :: "32 word \<Rightarrow> 32 word \<Rightarrow> 32 word" where
  "calculate_distance dx dy =
     (let abs_dx = abs32 dx;
          abs_dy = abs32 dy;
          max_val = (if abs_dy <s abs_dx then abs_dx else abs_dy);
          min_val = (if abs_dy <s abs_dx then abs_dy else abs_dx)
      in max_val + signed_drop_bit 1 min_val)"

text \<open>The formula of the specification, on mathematical integers.\<close>

definition approx_magnitude :: "int \<Rightarrow> int \<Rightarrow> int" where
  "approx_magnitude dx dy = max \<bar>dx\<bar> \<bar>dy\<bar> + min \<bar>dx\<bar> \<bar>dy\<bar> div 2"

section \<open>layer\_disable\_work\_handler\<close>

text \<open>
  The handler gets the work item that fired; \<open>CONTAINER_OF\<close> turns it into the address of
  the slot that embeds it, here the index \<open>w\<close> of that slot. The loop looks for the index
  \<open>i\<close> with \<open>&data->layers[i] == layer_data\<close> and stops at the first hit.
\<close>

fun disable_scan ::
  "nat \<Rightarrow> nat list \<Rightarrow> threshold_temp_layer_data \<Rightarrow> threshold_temp_layer_data \<times> effect list" where
  "disable_scan w [] data = (data, [])"
| "disable_scan w (i # is) data =
     (if i = w \<and> active (layers data ! w) then
        (data\<lparr>layers := (layers data)[w := (layers data ! w)\<lparr>active := False, accumulated_distance := 0\<rparr>]\<rparr>,
         [Deactivate i])
      else disable_scan w is data)"

definition layer_disable_work_handler ::
  "nat \<Rightarrow> threshold_temp_layer_data \<Rightarrow> threshold_temp_layer_data \<times> effect list" where
  "layer_disable_work_handler w data = disable_scan w [0..<MAX_LAYERS] data"

text \<open>
  The kernel's side of a timer expiry: the work item of slot \<open>w\<close> stops being pending and
  its handler runs. A fire with nothing pending is a handler call that was already under
  way when the work item was cancelled.
\<close>

definition timer_fire ::
  "nat \<Rightarrow> threshold_temp_layer_data \<Rightarrow> threshold_temp_layer_data \<times> effect list" where
  "timer_fire w data =
     layer_disable_work_handler w
       (data\<lparr>layers := (layers data)[w := (layers data ! w)\<lparr>disable_work := None\<rparr>]\<rparr>)"

section \<open>threshold\_temp\_layer\_handle\_event\<close>

text \<open>
  \<open>now\<close> is what \<open>k_uptime_get()\<close> returns during the call. The C function returns 0 on
  every path; the model returns the new driver data and the keymap calls made.
  \<open>k_work_reschedule\<close> replaces whatever was scheduled on the slot's work item.
\<close>

definition threshold_temp_layer_handle_event ::
  "threshold_temp_layer_config \<Rightarrow> 64 word \<Rightarrow> input_event \<Rightarrow> 32 word \<Rightarrow> 32 word \<Rightarrow> 32 word \<Rightarrow>
   threshold_temp_layer_data \<Rightarrow> threshold_temp_layer_data \<times> effect list" where
  "threshold_temp_layer_handle_event cfg now event param1 param2 param3 data =
     (let layer = (ucast param1 :: 8 word);
          timeout = (ucast param2 :: 16 word);
          activation_threshold = param3
      in if MAX_LAYERS \<le> unat layer then (data, [])
      else
        let layer_data = layers data ! unat layer
        in if \<not> active layer_data \<and> 0 <s require_prior_idle_ms cfg \<and>
              (now - last_tap_time data) <s scast (require_prior_idle_ms cfg)
           then (data, [])
           else if ev_type event = INPUT_EV_REL \<and>
                   (code event = INPUT_REL_X \<or> code event = INPUT_REL_Y) then
             let dx = (if code event = INPUT_REL_X then val event else pending_dx data);
                 dy = (if code event = INPUT_REL_X then pending_dy data
                       else if code event = INPUT_REL_Y then val event else pending_dy data);
                 (ld1, effs) =
                   (if \<not> active layer_data then
                      let distance = calculate_distance dx dy;
                          acc = accumulated_distance layer_data + distance
                      in if activation_threshold \<le>s acc
                         then (layer_data\<lparr>accumulated_distance := acc, active := True\<rparr>,
                               [Activate (unat layer)])
                         else (layer_data\<lparr>accumulated_distance := acc\<rparr>, [])
                    else (layer_data, []));
                 ld2 = (if active ld1 \<and> 0 <s timeout then ld1\<lparr>disable_work := Some timeout\<rparr>
                        else ld1)
             in (data\<lparr>layers := (layers data)[unat layer := ld2], pending_dx := 0, pending_dy := 0\<rparr>,
                 effs)
           else (data, []))"

section \<open>handle\_position\_state\_changed\<close>

text \<open>
  The first loop compares each \<open>uint8_t\<close> entry, widened, with the event's 32-bit
  position and returns at the first match.
\<close>

fun is_excluded :: "8 word list \<Rightarrow> 32 word \<Rightarrow> bool" where
  "is_excluded [] p = False"
| "is_excluded (e # es) p = (if ucast e = p then True else is_excluded es p)"

text \<open>The second loop, over the slot indices in order; \<open>k_work_cancel_delayable\<close> empties the work item.\<close>

fun deactivate_all ::
  "nat list \<Rightarrow> threshold_temp_layer_layer_data list \<Rightarrow>
   threshold_temp_layer_layer_data list \<times> effect list" where
  "deactivate_all [] ls = (ls, [])"
| "deactivate_all (i # is) ls =
     (if active (ls ! i) then
        (let r = deactivate_all is
                   (ls[i := (ls ! i)\<lparr>active := False, accumulated_distance := 0, disable_work := None\<rparr>])
         in (fst r, Deactivate i # snd r))
      else deactivate_all is ls)"

text \<open>
  \<open>eh\<close> is \<open>None\<close> when \<open>as_zmk_position_state_changed\<close> returns \<open>NULL\<close> (an event of
  another kind); \<open>now\<close> is what \<open>k_uptime_get()\<close> returns during the call.
\<close>

definition handle_position_state_changed ::
  "threshold_temp_layer_config \<Rightarrow> 64 word \<Rightarrow> zmk_position_state_changed option \<Rightarrow>
   threshold_temp_layer_data \<Rightarrow> threshold_temp_layer_data \<times> effect list" where
  "handle_position_state_changed cfg now eh data =
     (case eh of
        None \<Rightarrow> (data, [])
      | Some ev \<Rightarrow>
          if is_excluded (excluded_positions cfg) (position ev) then (data, [])
          else if state ev then
            (let r = deactivate_all [0..<MAX_LAYERS] (layers data)
             in (data\<lparr>last_tap_time := now, layers := fst r\<rparr>, snd r))
          else (data, []))"

section \<open>threshold\_temp\_layer\_init\<close>

text \<open>The driver data after initialisation; the two statics start at 0.\<close>

definition threshold_temp_layer_init :: threshold_temp_layer_data where
  "threshold_temp_layer_init =
     \<lparr>last_tap_time = 0,
      layers = replicate MAX_LAYERS \<lparr>accumulated_distance = 0, active = False, disable_work = None\<rparr>,
      pending_dx = 0, pending_dy = 0\<rparr>"

section \<open>Sequences of operations\<close>

text \<open>
  The three entry points as one operation type: a motion sample with the time of the
  call and the three runtime parameters, a key event with the time of the call, and the
  expiry of the timer of a slot.
\<close>

datatype operation =
  Motion "64 word" input_event "32 word" "32 word" "32 word"
| Key "64 word" "zmk_position_state_changed option"
| Fire nat

fun step ::
  "threshold_temp_layer_config \<Rightarrow> operation \<Rightarrow> threshold_temp_layer_data \<Rightarrow>
   threshold_temp_layer_data \<times> effect list" where
  "step cfg (Motion now event param1 param2 param3) data =
     threshold_temp_layer_handle_event cfg now event param1 param2 param3 data"
| "step cfg (Key now eh) data = handle_position_state_changed cfg now eh data"
| "step cfg (Fire w) data = timer_fire w data"

fun run ::
  "threshold_temp_layer_config \<Rightarrow> operation list \<Rightarrow> threshold_temp_layer_data \<Rightarrow>
   threshold_temp_layer_data \<times> effect list" where
  "run cfg [] data = (data, [])"
| "run cfg (x # xs) data =
     (let r1 = step cfg x data; r2 = run cfg xs (fst r1) in (fst r2, snd r1 @ snd r2))"

section \<open>Vocabulary of the specification\<close>

text \<open>The slot a call addresses and its timeout, as the handler reads its parameters.\<close>

definition layer_of :: "32 word \<Rightarrow> nat" where
  "layer_of param1 = unat (ucast param1 :: 8 word)"

definition timeout_of :: "32 word \<Rightarrow> 16 word" where
  "timeout_of param2 = ucast param2"

text \<open>A motion sample is a relative event on the X or the Y axis.\<close>

definition is_motion :: "input_event \<Rightarrow> bool" where
  "is_motion e \<longleftrightarrow> ev_type e = INPUT_EV_REL \<and> (code e = INPUT_REL_X \<or> code e = INPUT_REL_Y)"

definition rel_x :: "32 word \<Rightarrow> input_event" where
  "rel_x v = \<lparr>ev_type = INPUT_EV_REL, code = INPUT_REL_X, val = v\<rparr>"

definition rel_y :: "32 word \<Rightarrow> input_event" where
  "rel_y v = \<lparr>ev_type = INPUT_EV_REL, code = INPUT_REL_Y, val = v\<rparr>"





text \<open>The test the handler makes on an inactive slot before anything else: the idle gate is closed.\<close>

definition idle_gate_closed ::
  "threshold_temp_layer_config \<Rightarrow> 64 word \<Rightarrow> threshold_temp_layer_data \<Rightarrow> bool" where
  "idle_gate_closed cfg now data \<longleftrightarrow>
     0 <s require_prior_idle_ms cfg \<and>
     (now - last_tap_time data) <s scast (require_prior_idle_ms cfg)"

text \<open>
  The gate as the specification words it: an idle time is required and less than it has
  passed since the last key press.
\<close>

definition idle_gated :: "threshold_temp_layer_config \<Rightarrow> 64 word \<Rightarrow> threshold_temp_layer_data \<Rightarrow> bool" where
  "idle_gated cfg now data \<longleftrightarrow>
     0 < sint (require_prior_idle_ms cfg) \<and>
     sint now - sint (last_tap_time data) < sint (require_prior_idle_ms cfg)"

text \<open>The state of a slot after a non-excluded key press found it active.\<close>

definition reset_slot :: "threshold_temp_layer_layer_data \<Rightarrow> threshold_temp_layer_layer_data" where
  "reset_slot ld =
     (if active ld then \<lparr>accumulated_distance = 0, active = False, disable_work = None\<rparr> else ld)"

text \<open>
  Every motion sample of an operation sequence carries, for the slot it addresses, the
  timeout configured for that slot.
\<close>

definition uses_timeout :: "(nat \<Rightarrow> 16 word) \<Rightarrow> operation \<Rightarrow> bool" where
  "uses_timeout tmo x =
     (case x of Motion now e param1 param2 param3 \<Rightarrow> timeout_of param2 = tmo (layer_of param1)
      | _ \<Rightarrow> True)"

text \<open>A slot has a timer pending exactly when it is active and its timeout is positive.\<close>

definition timer_invariant :: "(nat \<Rightarrow> 16 word) \<Rightarrow> threshold_temp_layer_data \<Rightarrow> bool" where
  "timer_invariant tmo data \<longleftrightarrow>
     length (layers data) = MAX_LAYERS \<and>
     (\<forall>i < MAX_LAYERS.
        disable_work (layers data ! i) \<noteq> None \<longleftrightarrow> active (layers data ! i) \<and> 0 <s tmo i)"

text \<open>
  Whenever the operation is a motion sample that the handler accumulates (valid slot,
  inactive, idle gate open), its delta is not \<open>INT_MIN\<close> and adding its absolute value
  to the accumulator of the slot stays inside the 32-bit range.
\<close>

definition accumulation_fits ::
  "threshold_temp_layer_config \<Rightarrow> operation \<Rightarrow> threshold_temp_layer_data \<Rightarrow> bool" where
  "accumulation_fits cfg x data =
     (case x of
        Motion now e param1 param2 param3 \<Rightarrow>
          layer_of param1 < MAX_LAYERS \<and> is_motion e \<and>
          \<not> active (layers data ! layer_of param1) \<and> \<not> idle_gate_closed cfg now data \<longrightarrow>
            - (2 ^ 31) < sint (val e) \<and>
            sint (accumulated_distance (layers data ! layer_of param1)) + \<bar>sint (val e)\<bar> < 2 ^ 31
      | _ \<Rightarrow> True)"

text \<open>
  The distance the handler computes for a motion sample when the two statics are 0 at
  entry: the sample's own delta on its axis, 0 on the other.
\<close>

definition sample_distance :: "input_event \<Rightarrow> 32 word" where
  "sample_distance e =
     (if code e = INPUT_REL_X then calculate_distance (val e) 0 else calculate_distance 0 (val e))"

text \<open>
  A configuration and a state for the examples: 200 ms of idle time required, position 3
  excluded; slot 0 (timeout 500) and slot 1 (no timeout) both activated by one sample
  each, more than 200 ms after start-up.
\<close>

definition example_config :: threshold_temp_layer_config where
  "example_config = \<lparr>require_prior_idle_ms = 200, excluded_positions = [3]\<rparr>"

definition two_active_slots :: threshold_temp_layer_data where
  "two_active_slots =
     fst (run example_config
            [Motion 1000 (rel_x 60) 0 500 10, Motion 1010 (rel_y (- 50)) 1 0 10]
            threshold_temp_layer_init)"

text \<open>The state after start-up and one press of the non-excluded position 4 at time 1000.\<close>

definition after_key_press :: threshold_temp_layer_data where
  "after_key_press =
     fst (run example_config [Key 1000 (Some \<lparr>position = 4, state = True\<rparr>)] threshold_temp_layer_init)"

section \<open>Arithmetic of calculate\_distance\<close>

lemma sint_abs32: "- (2 ^ 31) < sint x \<Longrightarrow> sint (abs32 x) = \<bar>sint x\<bar>"
  unfolding abs32_def word_sless_alt
  using sint_lt[of x] sint_ge[of x]
  by (auto simp: sint_word_ariths signed_take_bit_int_eq_self_iff)

lemma abs32_nonneg: "- (2 ^ 31) < sint x \<Longrightarrow> \<not> abs32 x <s 0"
  using sint_abs32[of x] by (simp add: word_sless_alt)

lemma abs32_0: "abs32 0 = 0"
  by (simp add: abs32_def)

lemma sint_half: "sint (signed_drop_bit 1 (x :: 32 word)) = sint x div 2"
  by (simp add: sint_signed_drop_bit_eq drop_bit_eq_div)

lemma sint_add32:
  "- (2 ^ 31) \<le> sint (a :: 32 word) + sint b \<Longrightarrow> sint a + sint b < 2 ^ 31 \<Longrightarrow>
   sint (a + b) = sint a + sint b"
  by (simp add: sint_word_ariths signed_take_bit_int_eq_self_iff)

lemma sint_max_plus_half:
  fixes a b :: "32 word"
  assumes "0 \<le> sint a" "0 \<le> sint b" "sint a + sint b div 2 < 2 ^ 31"
  shows "sint (a + signed_drop_bit 1 b) = sint a + sint b div 2"
proof -
  have h: "sint (signed_drop_bit 1 b) = sint b div 2"
    by (rule sint_half)
  have nn: "0 \<le> sint b div 2"
    using assms(2) by simp
  have "sint (a + signed_drop_bit 1 b) = sint a + sint (signed_drop_bit 1 b)"
  proof (rule sint_add32)
    show "- (2 ^ 31) \<le> sint a + sint (signed_drop_bit 1 b)"
      unfolding h using assms(1) nn by simp
    show "sint a + sint (signed_drop_bit 1 b) < 2 ^ 31"
      unfolding h using assms(3) .
  qed
  then show ?thesis unfolding h .
qed

lemma calculate_distance_sint:
  assumes "approx_magnitude (sint dx) (sint dy) < 2 ^ 31"
  shows "sint (calculate_distance dx dy) = approx_magnitude (sint dx) (sint dy)"
proof -
  have bx: "- (2 ^ 31) < sint dx" and by': "- (2 ^ 31) < sint dy"
    using assms sint_ge[of dx] sint_ge[of dy] unfolding approx_magnitude_def by auto
  have ax: "sint (abs32 dx) = \<bar>sint dx\<bar>" and ay: "sint (abs32 dy) = \<bar>sint dy\<bar>"
    using bx by' by (simp_all add: sint_abs32)
  show ?thesis
  proof (cases "abs32 dy <s abs32 dx")
    case True
    then have le: "\<bar>sint dy\<bar> < \<bar>sint dx\<bar>"
      by (simp add: word_sless_alt ax ay)
    have "sint (abs32 dx + signed_drop_bit 1 (abs32 dy)) = sint (abs32 dx) + sint (abs32 dy) div 2"
      using assms le unfolding approx_magnitude_def
      by (intro sint_max_plus_half) (simp_all add: ax ay max_def min_def)
    with True le show ?thesis
      by (simp add: calculate_distance_def approx_magnitude_def ax ay max_def min_def)
  next
    case False
    then have le: "\<bar>sint dx\<bar> \<le> \<bar>sint dy\<bar>"
      by (simp add: word_sless_alt ax ay)
    have "sint (abs32 dy + signed_drop_bit 1 (abs32 dx)) = sint (abs32 dy) + sint (abs32 dx) div 2"
      using assms le unfolding approx_magnitude_def
      by (intro sint_max_plus_half) (simp_all add: ax ay max_def min_def)
    with False le show ?thesis
      by (simp add: calculate_distance_def approx_magnitude_def ax ay max_def min_def)
  qed
qed

lemma max_plus_half_zero:
  fixes a :: "32 word"
  assumes "\<not> a <s 0"
  shows "(if 0 <s a then a else 0) + signed_drop_bit 1 (if 0 <s a then 0 else a) = a"
proof (cases "0 <s a")
  case True
  then show ?thesis by simp
next
  case False
  with assms have "a = 0"
    using signed.less_linear[of a 0] by blast
  then show ?thesis by simp
qed

lemma calculate_distance_x: "- (2 ^ 31) < sint v \<Longrightarrow> calculate_distance v 0 = abs32 v"
  using max_plus_half_zero[OF abs32_nonneg[of v]]
  by (simp add: calculate_distance_def Let_def abs32_0)

lemma calculate_distance_y: "- (2 ^ 31) < sint v \<Longrightarrow> calculate_distance 0 v = abs32 v"
proof -
  assume "- (2 ^ 31) < sint v"
  then have "\<not> abs32 v <s 0"
    by (rule abs32_nonneg)
  then show ?thesis
    by (simp add: calculate_distance_def Let_def abs32_0)
qed

text \<open>
  Claim C2, within the 32-bit range. Whenever the value of the formula
  \<open>max(|dx|, |dy|) + floor(min(|dx|, |dy|) / 2)\<close> is below \<open>2^31\<close>, and so fits the
  \<open>int\<close> that \<open>calculate_distance\<close> returns, the function returns exactly that value.
\<close>

theorem calculate_distance_formula:
  "max \<bar>sint dx\<bar> \<bar>sint dy\<bar> + min \<bar>sint dx\<bar> \<bar>sint dy\<bar> div 2 < 2 ^ 31 \<Longrightarrow>
   sint (calculate_distance dx dy) = max \<bar>sint dx\<bar> \<bar>sint dy\<bar> + min \<bar>sint dx\<bar> \<bar>sint dy\<bar> div 2"
  using calculate_distance_sint[of dx dy] by (simp add: approx_magnitude_def)

text \<open>The three examples of the specification: 5 for (3, 4), 8 for (8, 0) and 7 for (-6, 2).\<close>

theorem calculate_distance_formula_witness:
  "max \<bar>sint (3 :: 32 word)\<bar> \<bar>sint (4 :: 32 word)\<bar> + min \<bar>sint (3 :: 32 word)\<bar> \<bar>sint (4 :: 32 word)\<bar> div 2 < 2 ^ 31 \<and>
   sint (calculate_distance 3 4) = 5 \<and>
   sint (calculate_distance 8 0) = 8 \<and>
   sint (calculate_distance (- 6) 2) = 7"
  using calculate_distance_formula[of 3 4] calculate_distance_formula[of 8 0]
    calculate_distance_formula[of "- 6" 2]
  by simp

text \<open>
  Claim C2 as stated fails where the formula leaves the 32-bit range: for
  \<open>dx = dy = 2147483647\<close> its value is 3221225470, which no \<open>int\<close> holds; the sum wraps
  around to -1073741826.
\<close>

theorem calculate_distance_overflow:
  "sint (calculate_distance 2147483647 2147483647) = - 1073741826 \<and>
   max \<bar>sint (2147483647 :: 32 word)\<bar> \<bar>sint (2147483647 :: 32 word)\<bar> +
     min \<bar>sint (2147483647 :: 32 word)\<bar> \<bar>sint (2147483647 :: 32 word)\<bar> div 2 = 3221225470"
  by (simp add: calculate_distance_def abs32_def word_sless_alt)

section \<open>Steps of the motion handler\<close>

lemma idle_gated_code:
  assumes "0 \<le> sint now" "0 \<le> sint (last_tap_time data)"
  shows "idle_gate_closed cfg now data \<longleftrightarrow> idle_gated cfg now data"
proof -
  have "sint (now - last_tap_time data) = sint now - sint (last_tap_time data)"
    using assms sint_lt[of now] sint_lt[of "last_tap_time data"]
    by (simp add: sint_word_ariths signed_take_bit_int_eq_self_iff)
  moreover have "sint (scast (require_prior_idle_ms cfg) :: 64 word) = sint (require_prior_idle_ms cfg)"
    by (simp add: sint_up_scast is_up)
  ultimately show ?thesis
    by (simp add: idle_gated_def idle_gate_closed_def word_sless_alt)
qed

lemma handle_event_invalid:
  "MAX_LAYERS \<le> layer_of param1 \<Longrightarrow>
   threshold_temp_layer_handle_event cfg now e param1 param2 param3 data = (data, [])"
  by (simp add: threshold_temp_layer_handle_event_def layer_of_def)

lemma handle_event_not_motion:
  "\<not> is_motion e \<Longrightarrow>
   threshold_temp_layer_handle_event cfg now e param1 param2 param3 data = (data, [])"
  by (auto simp: threshold_temp_layer_handle_event_def is_motion_def Let_def)

lemma handle_event_gated:
  "\<not> active (layers data ! layer_of param1) \<Longrightarrow> idle_gate_closed cfg now data \<Longrightarrow>
   threshold_temp_layer_handle_event cfg now e param1 param2 param3 data = (data, [])"
  by (simp add: threshold_temp_layer_handle_event_def idle_gate_closed_def layer_of_def Let_def)

lemma handle_event_active:
  assumes "layer_of param1 < MAX_LAYERS" "active (layers data ! layer_of param1)" "is_motion e"
  shows "threshold_temp_layer_handle_event cfg now e param1 param2 param3 data =
     (data\<lparr>layers := (layers data)[layer_of param1 :=
          (if 0 <s timeout_of param2
           then (layers data ! layer_of param1)\<lparr>disable_work := Some (timeout_of param2)\<rparr>
           else layers data ! layer_of param1)],
        pending_dx := 0, pending_dy := 0\<rparr>, [])"
  using assms
  by (simp add: threshold_temp_layer_handle_event_def is_motion_def layer_of_def timeout_of_def Let_def)

lemma handle_event_inactive:
  assumes "layer_of param1 < MAX_LAYERS" "\<not> active (layers data ! layer_of param1)"
    "\<not> idle_gate_closed cfg now data" "is_motion e" "pending_dx data = 0" "pending_dy data = 0"
  shows "threshold_temp_layer_handle_event cfg now e param1 param2 param3 data =
     (let ld = layers data ! layer_of param1;
          acc = accumulated_distance ld + sample_distance e
      in (data\<lparr>layers := (layers data)[layer_of param1 :=
            (if param3 \<le>s acc
             then ld\<lparr>accumulated_distance := acc, active := True,
                     disable_work := (if 0 <s timeout_of param2 then Some (timeout_of param2)
                                      else disable_work ld)\<rparr>
             else ld\<lparr>accumulated_distance := acc\<rparr>)],
           pending_dx := 0, pending_dy := 0\<rparr>,
          if param3 \<le>s acc then [Activate (layer_of param1)] else []))"
  using assms
  by (auto simp: threshold_temp_layer_handle_event_def is_motion_def layer_of_def timeout_of_def
      idle_gate_closed_def sample_distance_def Let_def)


lemma sample_distance_abs32: "- (2 ^ 31) < sint (val e) \<Longrightarrow> sample_distance e = abs32 (val e)"
  by (simp add: sample_distance_def calculate_distance_x calculate_distance_y)



lemma accumulate_sint:
  assumes "- (2 ^ 31) < sint (val e)" "sint (a :: 32 word) + \<bar>sint (val e)\<bar> < 2 ^ 31"
  shows "sint (a + sample_distance e) = sint a + \<bar>sint (val e)\<bar>"
proof -
  have d: "sint (sample_distance e) = \<bar>sint (val e)\<bar>"
    using assms(1) by (simp add: sample_distance_abs32 sint_abs32)
  have "sint (a + sample_distance e) = sint a + sint (sample_distance e)"
  proof (rule sint_add32)
    show "- (2 ^ 31) \<le> sint a + sint (sample_distance e)"
      unfolding d using sint_ge[of a] by simp
    show "sint a + sint (sample_distance e) < 2 ^ 31"
      unfolding d using assms(2) .
  qed
  then show ?thesis unfolding d .
qed







lemma handle_event_inactive_facts:
  assumes wf: "length (layers data) = MAX_LAYERS" and l: "layer_of param1 < MAX_LAYERS"
    and inact: "\<not> active (layers data ! layer_of param1)"
    and gate: "\<not> idle_gate_closed cfg now data" and mot: "is_motion e"
    and pend: "pending_dx data = 0" "pending_dy data = 0"
    and v: "- (2 ^ 31) < sint (val e)"
    and fits: "sint (accumulated_distance (layers data ! layer_of param1)) + \<bar>sint (val e)\<bar> < 2 ^ 31"
    and r_def: "r = threshold_temp_layer_handle_event cfg now e param1 param2 param3 data"
    and s_def: "s = sint (accumulated_distance (layers data ! layer_of param1)) + \<bar>sint (val e)\<bar>"
  shows "length (layers (fst r)) = MAX_LAYERS"
    and "last_tap_time (fst r) = last_tap_time data"
    and "pending_dx (fst r) = 0" and "pending_dy (fst r) = 0"
    and "sint (accumulated_distance (layers (fst r) ! layer_of param1)) = s"
    and "active (layers (fst r) ! layer_of param1) \<longleftrightarrow> sint param3 \<le> s"
    and "snd r = (if sint param3 \<le> s then [Activate (layer_of param1)] else [])"
proof -
  have acc: "sint (accumulated_distance (layers data ! layer_of param1) + sample_distance e) = s"
    unfolding s_def using v fits by (rule accumulate_sint)
  have len: "layer_of param1 < length (layers data)"
    using wf l by simp
  note eq = handle_event_inactive[OF l inact gate mot pend, of param2 param3, folded r_def]
  show "length (layers (fst r)) = MAX_LAYERS"
    using wf by (simp add: eq Let_def)
  show "last_tap_time (fst r) = last_tap_time data"
    by (simp add: eq Let_def)
  show "pending_dx (fst r) = 0" "pending_dy (fst r) = 0"
    by (simp_all add: eq Let_def)
  show "sint (accumulated_distance (layers (fst r) ! layer_of param1)) = s"
    using len acc by (simp add: eq Let_def)
  show "active (layers (fst r) ! layer_of param1) \<longleftrightarrow> sint param3 \<le> s"
    using len acc inact by (simp add: eq Let_def word_sle_eq)
  show "snd r = (if sint param3 \<le> s then [Activate (layer_of param1)] else [])"
    using acc by (simp add: eq Let_def word_sle_eq)
qed








section \<open>The key handler and the timer handler\<close>

lemma is_excluded_iff: "is_excluded es p \<longleftrightarrow> p \<in> ucast ` set es"
  by (induction es) auto

lemma reset_slot_idem: "reset_slot (reset_slot ld) = reset_slot ld"
  by (simp add: reset_slot_def)

lemma reset_slot_active:
  "active ld \<Longrightarrow> ld\<lparr>active := False, accumulated_distance := 0, disable_work := None\<rparr> = reset_slot ld"
  by (simp add: reset_slot_def)

lemma deactivate_all_length: "length (fst (deactivate_all is ls)) = length ls"
  by (induction "is" arbitrary: ls) (simp_all add: Let_def)

lemma deactivate_all_nth:
  "j < length ls \<Longrightarrow>
   fst (deactivate_all is ls) ! j = (if j \<in> set is then reset_slot (ls ! j) else ls ! j)"
proof (induction "is" arbitrary: ls)
  case Nil
  then show ?case by simp
next
  case (Cons i "is")
  show ?case
  proof (cases "active (ls ! i)")
    case False
    then have "reset_slot (ls ! i) = ls ! i"
      by (simp add: reset_slot_def)
    with False Cons show ?thesis by auto
  next
    case True
    let ?ls = "ls[i := reset_slot (ls ! i)]"
    have step: "fst (deactivate_all (i # is) ls) = fst (deactivate_all is ?ls)"
      using True by (simp add: Let_def reset_slot_active)
    have len: "j < length ?ls" using Cons.prems by simp
    have nth: "?ls ! j = (if j = i then reset_slot (ls ! i) else ls ! j)"
      using Cons.prems by (simp add: nth_list_update)
    show ?thesis
      unfolding step Cons.IH[OF len] nth
      by (simp add: reset_slot_idem)
  qed
qed

lemma deactivate_all_effects:
  "distinct is \<Longrightarrow> \<forall>i\<in>set is. i < length ls \<Longrightarrow>
   snd (deactivate_all is ls) = map Deactivate (filter (\<lambda>i. active (ls ! i)) is)"
proof (induction "is" arbitrary: ls)
  case Nil
  then show ?case by simp
next
  case (Cons i "is")
  show ?case
  proof (cases "active (ls ! i)")
    case False
    with Cons show ?thesis by simp
  next
    case True
    let ?ls = "ls[i := reset_slot (ls ! i)]"
    have same: "filter (\<lambda>k. active (?ls ! k)) is = filter (\<lambda>k. active (ls ! k)) is"
      using Cons.prems by (intro filter_cong) (auto simp: nth_list_update)
    have "snd (deactivate_all is ?ls) = map Deactivate (filter (\<lambda>k. active (?ls ! k)) is)"
      using Cons.prems by (intro Cons.IH) auto
    with True same show ?thesis
      by (simp add: Let_def reset_slot_active)
  qed
qed

lemma deactivate_all_layers:
  "length ls = MAX_LAYERS \<Longrightarrow> fst (deactivate_all [0..<MAX_LAYERS] ls) = map reset_slot ls"
  by (rule nth_equalityI) (simp_all add: deactivate_all_length deactivate_all_nth)

lemma deactivate_all_upt_effects:
  "length ls = MAX_LAYERS \<Longrightarrow>
   snd (deactivate_all [0..<MAX_LAYERS] ls) = map Deactivate (filter (\<lambda>i. active (ls ! i)) [0..<MAX_LAYERS])"
  by (rule deactivate_all_effects) simp_all

lemma disable_scan_eq:
  "disable_scan w is data =
     (if w \<in> set is \<and> active (layers data ! w)
      then (data\<lparr>layers := (layers data)[w := (layers data ! w)\<lparr>active := False, accumulated_distance := 0\<rparr>]\<rparr>,
            [Deactivate w])
      else (data, []))"
  by (induction "is") auto

lemma layer_disable_work_handler_eq:
  "layer_disable_work_handler w data =
     (if w < MAX_LAYERS \<and> active (layers data ! w)
      then (data\<lparr>layers := (layers data)[w := (layers data ! w)\<lparr>active := False, accumulated_distance := 0\<rparr>]\<rparr>,
            [Deactivate w])
      else (data, []))"
  by (simp add: layer_disable_work_handler_def disable_scan_eq)

lemma slot_updates_all:
  "ld\<lparr>active := a, accumulated_distance := c, disable_work := d\<rparr> =
     \<lparr>accumulated_distance = c, active = a, disable_work = d\<rparr>"
  "ld\<lparr>disable_work := d, active := a, accumulated_distance := c\<rparr> =
     \<lparr>accumulated_distance = c, active = a, disable_work = d\<rparr>"
  by (cases ld, simp)+

lemma replicate_update_same: "(replicate n x)[i := x] = replicate n x"
  by (cases "i < n") (simp_all add: list_update_same_conv list_update_beyond)

text \<open>The example state, evaluated.\<close>

lemmas eval_defs = threshold_temp_layer_init_def MAX_LAYERS_def
      threshold_temp_layer_handle_event_def rel_x_def rel_y_def INPUT_EV_REL_def INPUT_REL_X_def
      INPUT_REL_Y_def Let_def calculate_distance_def abs32_def word_sless_alt word_sle_eq example_config_def

lemma two_active_slots_layers:
  "layers two_active_slots =
     (replicate 16 \<lparr>accumulated_distance = 0, active = False, disable_work = None\<rparr>)
       [0 := \<lparr>accumulated_distance = 60, active = True, disable_work = Some 500\<rparr>,
        1 := \<lparr>accumulated_distance = 50, active = True, disable_work = None\<rparr>]"
  by (simp add: two_active_slots_def eval_defs)

lemma two_active_slots_rest:
  "last_tap_time two_active_slots = 0 \<and> pending_dx two_active_slots = 0 \<and> pending_dy two_active_slots = 0"
  by (simp add: two_active_slots_def eval_defs)

text \<open>
  Claim C3. A key event at a position that is not excluded, with \<open>pressed\<close> true, sets
  \<open>last_tap_time\<close> to the current time and turns every active slot, whatever its layer,
  into an inactive slot with accumulated distance 0 and no pending timer, emitting one
  \<open>deactivate\<close> per slot that was active (in slot order); inactive slots and everything
  else stay as they were. A key event with \<open>pressed\<close> false changes nothing and emits
  nothing.
\<close>

theorem key_press_resets_every_active_slot:
  assumes "length (layers data) = MAX_LAYERS"
  shows "(position ev \<notin> ucast ` set (excluded_positions cfg) \<and> state ev \<longrightarrow>
          handle_position_state_changed cfg now (Some ev) data =
            (data\<lparr>last_tap_time := now, layers := map reset_slot (layers data)\<rparr>,
             map Deactivate (filter (\<lambda>i. active (layers data ! i)) [0..<MAX_LAYERS]))) \<and>
         (\<not> state ev \<longrightarrow> handle_position_state_changed cfg now (Some ev) data = (data, []))"
  using assms
  by (simp add: handle_position_state_changed_def is_excluded_iff Let_def
      deactivate_all_layers deactivate_all_upt_effects)

text \<open>With slots 0 and 1 active, one press of the non-excluded position 4 deactivates both.\<close>

theorem key_press_resets_every_active_slot_witness:
  "handle_position_state_changed example_config 2000 (Some \<lparr>position = 4, state = True\<rparr>) two_active_slots =
     (threshold_temp_layer_init\<lparr>last_tap_time := 2000\<rparr>, [Deactivate 0, Deactivate 1]) \<and>
   handle_position_state_changed example_config 2000 (Some \<lparr>position = 4, state = False\<rparr>) two_active_slots =
     (two_active_slots, [])"
proof -
  have len: "length (layers two_active_slots) = MAX_LAYERS"
    by (simp add: two_active_slots_layers MAX_LAYERS_def)
  have l: "map reset_slot (layers two_active_slots) = layers threshold_temp_layer_init"
    by (simp add: two_active_slots_layers map_update reset_slot_def threshold_temp_layer_init_def MAX_LAYERS_def replicate_update_same)
  have f: "filter (\<lambda>i. active (layers two_active_slots ! i)) [0..<MAX_LAYERS] = [0, 1]"
    by (simp add: two_active_slots_layers MAX_LAYERS_def upt_conv_Cons)
  have d: "two_active_slots\<lparr>last_tap_time := 2000, layers := layers threshold_temp_layer_init\<rparr> = threshold_temp_layer_init\<lparr>last_tap_time := 2000\<rparr>"
    using two_active_slots_rest by (cases two_active_slots) (simp add: threshold_temp_layer_init_def)
  show ?thesis
    using key_press_resets_every_active_slot[OF len, of "\<lparr>position = 4, state = True\<rparr>" example_config 2000]
      key_press_resets_every_active_slot[OF len, of "\<lparr>position = 4, state = False\<rparr>" example_config 2000]
    by (simp add: l f d example_config_def)
qed

text \<open>
  Claim C6. A key event whose position is among the excluded positions leaves the whole
  driver state as it is (idle clock, active flags, accumulators, timers) and emits
  nothing, pressed or released, whatever slots are active.
\<close>

theorem excluded_position_ignored:
  "position ev \<in> ucast ` set (excluded_positions cfg) \<Longrightarrow>
   handle_position_state_changed cfg now (Some ev) data = (data, [])"
  by (simp add: handle_position_state_changed_def is_excluded_iff)

theorem excluded_position_ignored_witness:
  "handle_position_state_changed example_config 2000 (Some \<lparr>position = 3, state = True\<rparr>) two_active_slots =
     (two_active_slots, [])"
  using excluded_position_ignored[of "\<lparr>position = 3, state = True\<rparr>" example_config 2000 two_active_slots]
  by (simp add: example_config_def)

text \<open>
  Claim C7. The timeout handler is idempotent: called for a slot that is inactive it
  changes nothing and emits nothing, so a second call, after the first has deactivated
  the slot, leaves the state of the first call as it is. The same holds for the whole
  expiry, which also clears the pending timer.
\<close>

theorem timeout_idempotent:
  assumes "length (layers data) = MAX_LAYERS"
  shows "(\<not> active (layers data ! w) \<longrightarrow> layer_disable_work_handler w data = (data, [])) \<and>
         layer_disable_work_handler w (fst (layer_disable_work_handler w data)) =
           (fst (layer_disable_work_handler w data), []) \<and>
         timer_fire w (fst (timer_fire w data)) = (fst (timer_fire w data), [])"
proof (cases "w < MAX_LAYERS")
  case True
  with assms show ?thesis
    by (simp add: layer_disable_work_handler_eq timer_fire_def slot_updates_all)
next
  case False
  with assms show ?thesis
    by (simp add: layer_disable_work_handler_eq timer_fire_def list_update_beyond)
qed


theorem timeout_idempotent_witness:
  "snd (layer_disable_work_handler 0 two_active_slots) = [Deactivate 0] \<and>
   layer_disable_work_handler 0 (fst (layer_disable_work_handler 0 two_active_slots)) =
     (fst (layer_disable_work_handler 0 two_active_slots), []) \<and>
   layer_disable_work_handler 0 threshold_temp_layer_init = (threshold_temp_layer_init, [])"
proof -
  have len: "length (layers two_active_slots) = MAX_LAYERS"
    by (simp add: two_active_slots_layers MAX_LAYERS_def)
  have len0: "length (layers threshold_temp_layer_init) = MAX_LAYERS"
    by (simp add: threshold_temp_layer_init_def)
  have a: "snd (layer_disable_work_handler 0 two_active_slots) = [Deactivate 0]"
    by (simp add: layer_disable_work_handler_eq two_active_slots_layers MAX_LAYERS_def)
  have b: "\<not> active (layers threshold_temp_layer_init ! 0)"
    by (simp add: threshold_temp_layer_init_def MAX_LAYERS_def)
  show ?thesis
    using timeout_idempotent[OF len, of 0] timeout_idempotent[OF len0, of 0] a b
    by simp
qed


section \<open>Invalid layers and the idle gate\<close>

lemma handle_event_ungated:
  assumes "active (layers data ! layer_of param1) \<or> \<not> idle_gate_closed cfg now data"
  shows "threshold_temp_layer_handle_event cfg now e param1 param2 param3 data =
         threshold_temp_layer_handle_event (cfg\<lparr>require_prior_idle_ms := 0\<rparr>) now e param1 param2 param3 data"
  using assms
  by (auto simp: threshold_temp_layer_handle_event_def idle_gate_closed_def layer_of_def Let_def)

lemma after_key_press_eq: "after_key_press = threshold_temp_layer_init\<lparr>last_tap_time := 1000\<rparr>"
proof -
  have len: "length (layers threshold_temp_layer_init) = MAX_LAYERS"
    by (simp add: threshold_temp_layer_init_def)
  have m: "map reset_slot (layers threshold_temp_layer_init) = layers threshold_temp_layer_init"
    by (simp add: threshold_temp_layer_init_def reset_slot_def)
  show ?thesis
    by (simp add: after_key_press_def handle_position_state_changed_def example_config_def Let_def
        deactivate_all_layers[OF len] m)
qed

text \<open>
  Claim C4, for the layer the handler reads. The handler takes the layer from the low 8
  bits of its first parameter, \<open>(uint8_t)param1\<close>. Whenever that 8-bit layer is 16 or
  more, the call is a no-op: the driver state, the two statics included, is returned
  unchanged and nothing is emitted.
\<close>

theorem invalid_layer_dropped:
  "MAX_LAYERS \<le> layer_of param1 \<Longrightarrow>
   threshold_temp_layer_handle_event cfg now e param1 param2 param3 data = (data, [])"
  by (rule handle_event_invalid)

theorem invalid_layer_dropped_witness:
  "MAX_LAYERS \<le> layer_of 16 \<and>
   threshold_temp_layer_handle_event example_config 5000 (rel_x 60) 16 500 10 two_active_slots =
     (two_active_slots, [])"
  using invalid_layer_dropped[of 16 example_config 5000 "rel_x 60" 500 10 two_active_slots]
  by (simp add: layer_of_def MAX_LAYERS_def)

text \<open>
  Claim C4 as stated fails for parameters of 256 and more: 256 names no slot, but its low
  8 bits are 0 and the sample is processed on slot 0, which here accumulates 5, becomes
  active, emits \<open>activate(0)\<close> and gets its timer armed.
\<close>

theorem layer_256_is_slot_0:
  "MAX_LAYERS \<le> unat (256 :: 32 word) \<and>
   snd (threshold_temp_layer_handle_event \<lparr>require_prior_idle_ms = 0, excluded_positions = []\<rparr>
          0 (rel_x 5) 256 500 0 threshold_temp_layer_init) = [Activate 0] \<and>
   layers (fst (threshold_temp_layer_handle_event \<lparr>require_prior_idle_ms = 0, excluded_positions = []\<rparr>
          0 (rel_x 5) 256 500 0 threshold_temp_layer_init)) ! 0 =
     \<lparr>accumulated_distance = 5, active = True, disable_work = Some 500\<rparr>"
  by (simp add: eval_defs)

text \<open>
  Claim C5. With a required idle time \<open>R > 0\<close> and clock readings that are not negative,
  for a call on a valid slot: if the slot is inactive and less than \<open>R\<close> has elapsed since
  \<open>last_tap_time\<close>, the call changes nothing and emits nothing (no accumulation, no
  activation); if the slot is inactive and \<open>R\<close> or more has elapsed, the call does what it
  does without an idle requirement, and a motion sample adds its distance to the
  accumulator and activates the slot exactly when the threshold is reached; if the slot
  is active the gate does not apply, and a motion sample with a positive timeout re-arms
  the timer.
\<close>

theorem idle_gate:
  assumes "length (layers data) = MAX_LAYERS" and "layer_of param1 < MAX_LAYERS"
    and "0 \<le> sint now" and "0 \<le> sint (last_tap_time data)"
    and "0 < sint (require_prior_idle_ms cfg)"
  shows "(\<not> active (layers data ! layer_of param1) \<and>
          sint now - sint (last_tap_time data) < sint (require_prior_idle_ms cfg) \<longrightarrow>
            threshold_temp_layer_handle_event cfg now e param1 param2 param3 data = (data, [])) \<and>
         (\<not> active (layers data ! layer_of param1) \<and>
          sint (require_prior_idle_ms cfg) \<le> sint now - sint (last_tap_time data) \<longrightarrow>
            threshold_temp_layer_handle_event cfg now e param1 param2 param3 data =
            threshold_temp_layer_handle_event (cfg\<lparr>require_prior_idle_ms := 0\<rparr>) now e param1 param2 param3 data \<and>
            (is_motion e \<and> pending_dx data = 0 \<and> pending_dy data = 0 \<longrightarrow>
               accumulated_distance
                 (layers (fst (threshold_temp_layer_handle_event cfg now e param1 param2 param3 data)) ! layer_of param1) =
                 accumulated_distance (layers data ! layer_of param1) + sample_distance e \<and>
               (active (layers (fst (threshold_temp_layer_handle_event cfg now e param1 param2 param3 data)) ! layer_of param1) \<longleftrightarrow>
                 param3 \<le>s accumulated_distance (layers data ! layer_of param1) + sample_distance e))) \<and>
         (active (layers data ! layer_of param1) \<longrightarrow>
            threshold_temp_layer_handle_event cfg now e param1 param2 param3 data =
            threshold_temp_layer_handle_event (cfg\<lparr>require_prior_idle_ms := 0\<rparr>) now e param1 param2 param3 data \<and>
            (is_motion e \<and> 0 <s timeout_of param2 \<longrightarrow>
               disable_work
                 (layers (fst (threshold_temp_layer_handle_event cfg now e param1 param2 param3 data)) ! layer_of param1) =
                 Some (timeout_of param2)))"
proof -
  have g: "idle_gate_closed cfg now data \<longleftrightarrow>
      sint now - sint (last_tap_time data) < sint (require_prior_idle_ms cfg)"
    using idle_gated_code[OF assms(3,4), of cfg] assms(5) by (simp add: idle_gated_def)
  have len: "layer_of param1 < length (layers data)"
    using assms(1,2) by simp
  have one: "threshold_temp_layer_handle_event cfg now e param1 param2 param3 data = (data, [])"
    if "\<not> active (layers data ! layer_of param1)"
      "sint now - sint (last_tap_time data) < sint (require_prior_idle_ms cfg)"
    using that g by (simp add: handle_event_gated)
  have two: "threshold_temp_layer_handle_event cfg now e param1 param2 param3 data =
      threshold_temp_layer_handle_event (cfg\<lparr>require_prior_idle_ms := 0\<rparr>) now e param1 param2 param3 data"
    if "active (layers data ! layer_of param1) \<or>
      sint (require_prior_idle_ms cfg) \<le> sint now - sint (last_tap_time data)"
    using that g by (intro handle_event_ungated) auto
  have three: "accumulated_distance
        (layers (fst (threshold_temp_layer_handle_event cfg now e param1 param2 param3 data)) ! layer_of param1) =
        accumulated_distance (layers data ! layer_of param1) + sample_distance e \<and>
      (active (layers (fst (threshold_temp_layer_handle_event cfg now e param1 param2 param3 data)) ! layer_of param1) \<longleftrightarrow>
        param3 \<le>s accumulated_distance (layers data ! layer_of param1) + sample_distance e)"
    if "\<not> active (layers data ! layer_of param1)"
      "sint (require_prior_idle_ms cfg) \<le> sint now - sint (last_tap_time data)"
      "is_motion e" "pending_dx data = 0" "pending_dy data = 0"
  proof -
    have "\<not> idle_gate_closed cfg now data"
      using that(2) g by simp
    from handle_event_inactive[OF assms(2) that(1) this that(3,4,5), of param2 param3] len that(1)
    show ?thesis by (simp add: Let_def)
  qed
  have four: "disable_work
        (layers (fst (threshold_temp_layer_handle_event cfg now e param1 param2 param3 data)) ! layer_of param1) =
        Some (timeout_of param2)"
    if "active (layers data ! layer_of param1)" "is_motion e" "0 <s timeout_of param2"
    using handle_event_active[OF assms(2) that(1,2), of cfg now param2 param3] len that(3)
    by simp
  from one two three four show ?thesis
    by blast
qed


text \<open>
  With \<open>R = 200\<close> and the last key press at 1000: a sample at 1150 is dropped, a sample
  at 1200 accumulates 30 and activates (threshold 10); on an active slot a sample 100 ms
  after the last key press re-arms the timer.
\<close>

theorem idle_gate_witness:
  "threshold_temp_layer_handle_event example_config 1150 (rel_x 30) 0 500 10 after_key_press =
     (after_key_press, []) \<and>
   accumulated_distance (layers (fst (threshold_temp_layer_handle_event example_config 1200 (rel_x 30) 0 500 10
     after_key_press)) ! 0) = 30 \<and>
   active (layers (fst (threshold_temp_layer_handle_event example_config 1200 (rel_x 30) 0 500 10
     after_key_press)) ! 0) \<and>
   disable_work (layers (fst (threshold_temp_layer_handle_event example_config 100 (rel_x 30) 0 700 10
     two_active_slots)) ! 0) = Some 700"
proof -
  have l0: "layer_of 0 = 0"
    by (simp add: layer_of_def)
  have v: "layer_of 0 < MAX_LAYERS"
    by (simp add: l0 MAX_LAYERS_def)
  have a: "length (layers after_key_press) = MAX_LAYERS"
    "last_tap_time after_key_press = 1000" "\<not> active (layers after_key_press ! 0)"
    "pending_dx after_key_press = 0" "pending_dy after_key_press = 0"
    "accumulated_distance (layers after_key_press ! 0) = 0"
    by (simp_all add: after_key_press_eq threshold_temp_layer_init_def MAX_LAYERS_def)
  have b: "length (layers two_active_slots) = MAX_LAYERS" "active (layers two_active_slots ! 0)"
    "last_tap_time two_active_slots = 0"
    using two_active_slots_rest by (simp_all add: two_active_slots_layers MAX_LAYERS_def)
  have c: "sample_distance (rel_x 30) = 30" "is_motion (rel_x 30)" "timeout_of 700 = 700"
    by (simp_all add: sample_distance_def is_motion_def timeout_of_def eval_defs)
  have d: "sint (require_prior_idle_ms example_config) = 200"
    by (simp add: example_config_def)
  have n: "0 \<le> sint (1150 :: 64 word)" "0 \<le> sint (1200 :: 64 word)" "0 \<le> sint (100 :: 64 word)"
    "0 \<le> sint (last_tap_time after_key_press)" "0 \<le> sint (last_tap_time two_active_slots)"
    "0 < sint (require_prior_idle_ms example_config)"
    by (simp_all add: a b d)
  have g1: "threshold_temp_layer_handle_event example_config 1150 (rel_x 30) 0 500 10 after_key_press =
      (after_key_press, [])"
  proof -
    have "\<not> active (layers after_key_press ! layer_of 0) \<and>
        sint (1150 :: 64 word) - sint (last_tap_time after_key_press) < sint (require_prior_idle_ms example_config)"
      by (simp add: a d l0)
    with idle_gate[OF a(1) v n(1,4,6), of "rel_x 30" 500 10] show ?thesis
      by blast
  qed
  have g2: "accumulated_distance (layers (fst (threshold_temp_layer_handle_event example_config 1200
        (rel_x 30) 0 500 10 after_key_press)) ! 0) = 30 \<and>
      active (layers (fst (threshold_temp_layer_handle_event example_config 1200
        (rel_x 30) 0 500 10 after_key_press)) ! 0)"
  proof -
    have "\<not> active (layers after_key_press ! layer_of 0) \<and>
        sint (require_prior_idle_ms example_config) \<le> sint (1200 :: 64 word) - sint (last_tap_time after_key_press)"
      by (simp add: a d l0)
    moreover have "is_motion (rel_x 30) \<and> pending_dx after_key_press = 0 \<and> pending_dy after_key_press = 0"
      by (simp add: a c)
    ultimately have "accumulated_distance
        (layers (fst (threshold_temp_layer_handle_event example_config 1200 (rel_x 30) 0 500 10 after_key_press)) ! layer_of 0) =
        accumulated_distance (layers after_key_press ! layer_of 0) + sample_distance (rel_x 30) \<and>
      (active (layers (fst (threshold_temp_layer_handle_event example_config 1200 (rel_x 30) 0 500 10 after_key_press)) ! layer_of 0) \<longleftrightarrow>
        10 \<le>s accumulated_distance (layers after_key_press ! layer_of 0) + sample_distance (rel_x 30))"
      using idle_gate[OF a(1) v n(2,4,6), of "rel_x 30" 500 10] by blast
    then show ?thesis
      by (simp add: a c l0 word_sle_eq)
  qed
  have g3: "disable_work (layers (fst (threshold_temp_layer_handle_event example_config 100 (rel_x 30) 0 700 10
      two_active_slots)) ! 0) = Some 700"
  proof -
    have "active (layers two_active_slots ! layer_of 0)"
      by (simp add: b l0)
    moreover have "is_motion (rel_x 30) \<and> 0 <s timeout_of 700"
      by (simp add: c word_sless_alt)
    ultimately have "disable_work
        (layers (fst (threshold_temp_layer_handle_event example_config 100 (rel_x 30) 0 700 10 two_active_slots)) ! layer_of 0) =
        Some (timeout_of 700)"
      using idle_gate[OF b(1) v n(3,5,6), of "rel_x 30" 700 10] by blast
    then show ?thesis
      by (simp add: c l0)
  qed
  from g1 g2 g3 show ?thesis
    by simp
qed


section \<open>Invariants of operation sequences\<close>

lemma handle_event_length:
  "length (layers (fst (threshold_temp_layer_handle_event cfg now e param1 param2 param3 data))) =
   length (layers data)"
  by (simp add: threshold_temp_layer_handle_event_def Let_def split: prod.splits)

lemma handle_event_pending:
  "pending_dx data = 0 \<Longrightarrow> pending_dy data = 0 \<Longrightarrow>
   pending_dx (fst (threshold_temp_layer_handle_event cfg now e param1 param2 param3 data)) = 0 \<and>
   pending_dy (fst (threshold_temp_layer_handle_event cfg now e param1 param2 param3 data)) = 0"
  by (simp add: threshold_temp_layer_handle_event_def Let_def split: prod.splits)

lemma key_event_eq:
  assumes "length (layers data) = MAX_LAYERS"
  shows "handle_position_state_changed cfg now eh data =
     (case eh of None \<Rightarrow> (data, [])
      | Some ev \<Rightarrow>
          if position ev \<notin> ucast ` set (excluded_positions cfg) \<and> state ev
          then (data\<lparr>last_tap_time := now, layers := map reset_slot (layers data)\<rparr>,
                map Deactivate (filter (\<lambda>i. active (layers data ! i)) [0..<MAX_LAYERS]))
          else (data, []))"
  using assms
  by (simp add: handle_position_state_changed_def is_excluded_iff Let_def
      deactivate_all_layers deactivate_all_upt_effects split: option.splits)

lemma timer_fire_eq:
  assumes "length (layers data) = MAX_LAYERS"
  shows "timer_fire w data =
     (if w < MAX_LAYERS
      then (data\<lparr>layers := (layers data)[w :=
              (if active (layers data ! w)
               then \<lparr>accumulated_distance = 0, active = False, disable_work = None\<rparr>
               else (layers data ! w)\<lparr>disable_work := None\<rparr>)]\<rparr>,
            if active (layers data ! w) then [Deactivate w] else [])
      else (data, []))"
proof (cases "w < MAX_LAYERS")
  case True
  with assms show ?thesis
    by (simp add: timer_fire_def layer_disable_work_handler_eq slot_updates_all)
next
  case False
  with assms show ?thesis
    by (simp add: timer_fire_def layer_disable_work_handler_eq list_update_beyond)
qed

lemma step_length:
  "length (layers data) = MAX_LAYERS \<Longrightarrow> length (layers (fst (step cfg x data))) = MAX_LAYERS"
  by (cases x) (simp_all add: handle_event_length key_event_eq timer_fire_eq split: option.splits)

lemma step_pending:
  "length (layers data) = MAX_LAYERS \<Longrightarrow> pending_dx data = 0 \<Longrightarrow> pending_dy data = 0 \<Longrightarrow>
   pending_dx (fst (step cfg x data)) = 0 \<and> pending_dy (fst (step cfg x data)) = 0"
  by (cases x) (simp_all add: handle_event_pending key_event_eq timer_fire_eq split: option.splits)

lemma run_shape:
  "length (layers data) = MAX_LAYERS \<Longrightarrow> pending_dx data = 0 \<Longrightarrow> pending_dy data = 0 \<Longrightarrow>
   length (layers (fst (run cfg xs data))) = MAX_LAYERS \<and>
   pending_dx (fst (run cfg xs data)) = 0 \<and> pending_dy (fst (run cfg xs data)) = 0"
proof (induction xs arbitrary: data)
  case Nil
  then show ?case by simp
next
  case (Cons x xs)
  from Cons.IH[of "fst (step cfg x data)"] step_length[OF Cons.prems(1), of cfg x]
    step_pending[OF Cons.prems, of cfg x]
  show ?case by (simp add: Let_def)
qed

lemma init_shape:
  "length (layers threshold_temp_layer_init) = MAX_LAYERS"
  "pending_dx threshold_temp_layer_init = 0" "pending_dy threshold_temp_layer_init = 0"
  by (simp_all add: threshold_temp_layer_init_def)

lemma handle_event_timer_invariant:
  assumes "timer_invariant tmo data" "timeout_of param2 = tmo (layer_of param1)"
  shows "timer_invariant tmo (fst (threshold_temp_layer_handle_event cfg now e param1 param2 param3 data))"
proof -
  have len: "length (layers data) = MAX_LAYERS"
    using assms(1) by (simp add: timer_invariant_def)
  have inv: "\<And>i. i < MAX_LAYERS \<Longrightarrow>
      disable_work (layers data ! i) \<noteq> None \<longleftrightarrow> active (layers data ! i) \<and> 0 <s tmo i"
    using assms(1) by (simp add: timer_invariant_def)
  show ?thesis
    unfolding timer_invariant_def
    using len inv assms(2)
    by (auto simp: threshold_temp_layer_handle_event_def Let_def layer_of_def timeout_of_def
        nth_list_update split: prod.splits if_splits)
qed

lemma key_event_timer_invariant:
  assumes "timer_invariant tmo data"
  shows "timer_invariant tmo (fst (handle_position_state_changed cfg now eh data))"
proof -
  have len: "length (layers data) = MAX_LAYERS"
    using assms by (simp add: timer_invariant_def)
  show ?thesis
    using assms
    by (auto simp: key_event_eq[OF len] timer_invariant_def reset_slot_def split: option.splits)
qed

lemma timer_fire_timer_invariant:
  assumes "timer_invariant tmo data"
  shows "timer_invariant tmo (fst (timer_fire w data))"
proof -
  have len: "length (layers data) = MAX_LAYERS"
    using assms by (simp add: timer_invariant_def)
  show ?thesis
    using assms
    by (auto simp: timer_fire_eq[OF len] timer_invariant_def nth_list_update)
qed

lemma step_timer_invariant:
  "timer_invariant tmo data \<Longrightarrow> uses_timeout tmo x \<Longrightarrow> timer_invariant tmo (fst (step cfg x data))"
  by (cases x)
    (simp_all add: uses_timeout_def handle_event_timer_invariant key_event_timer_invariant
      timer_fire_timer_invariant)

lemma run_timer_invariant:
  "timer_invariant tmo data \<Longrightarrow> \<forall>x\<in>set xs. uses_timeout tmo x \<Longrightarrow>
   timer_invariant tmo (fst (run cfg xs data))"
proof (induction xs arbitrary: data)
  case Nil
  then show ?case by simp
next
  case (Cons x xs)
  from Cons.prems have "timer_invariant tmo (fst (step cfg x data))"
    by (simp add: step_timer_invariant)
  with Cons.IH[of "fst (step cfg x data)"] Cons.prems(2) show ?case
    by (simp add: Let_def)
qed

lemma init_timer_invariant: "timer_invariant tmo threshold_temp_layer_init"
  by (simp add: timer_invariant_def threshold_temp_layer_init_def)

text \<open>
  Claim C9. Let every slot have one configured timeout, the signed 16-bit value the
  handler reads, carried by every motion sample for that slot. In every state reached
  from initialisation by a sequence of motion samples, key events and timer expiries,
  a slot has its timer pending if and only if it is active and its timeout is positive.
\<close>

theorem timer_pending_iff_active:
  "\<forall>x\<in>set xs. uses_timeout tmo x \<Longrightarrow>
   timer_invariant tmo (fst (run cfg xs threshold_temp_layer_init))"
  using init_timer_invariant by (rule run_timer_invariant)


text \<open>
  After one sample for slot 0 (timeout 500) and one for slot 1 (timeout 0) both slots are
  active; slot 0 has its timer pending, slot 1 has none.
\<close>

theorem timer_pending_iff_active_witness:
  "timer_invariant (\<lambda>i. if i = 0 then 500 else 0) two_active_slots \<and>
   active (layers two_active_slots ! 0) \<and> disable_work (layers two_active_slots ! 0) = Some 500 \<and>
   active (layers two_active_slots ! 1) \<and> disable_work (layers two_active_slots ! 1) = None"
proof -
  have u: "\<forall>x\<in>set [Motion 1000 (rel_x 60) 0 500 10, Motion 1010 (rel_y (- 50)) 1 0 10].
      uses_timeout (\<lambda>i. if i = 0 then 500 else 0) x"
    by (simp add: uses_timeout_def layer_of_def timeout_of_def)
  have "timer_invariant (\<lambda>i. if i = 0 then 500 else 0) two_active_slots"
    unfolding two_active_slots_def
    using u by (rule timer_pending_iff_active)
  then show ?thesis
    by (simp add: two_active_slots_layers)
qed


section \<open>The accumulator across operations\<close>

lemma handle_event_other_slot:
  "i \<noteq> layer_of param1 \<Longrightarrow>
   layers (fst (threshold_temp_layer_handle_event cfg now e param1 param2 param3 data)) ! i =
   layers data ! i"
  by (simp add: threshold_temp_layer_handle_event_def Let_def layer_of_def split: prod.splits)

lemma handle_event_slot_change:
  assumes len: "length (layers data) = MAX_LAYERS" and i: "i < MAX_LAYERS"
    and pend: "pending_dx data = 0" "pending_dy data = 0"
    and fits: "accumulation_fits cfg (Motion now e param1 param2 param3) data"
  defines "s \<equiv> layers data ! i"
  defines "s' \<equiv> layers (fst (threshold_temp_layer_handle_event cfg now e param1 param2 param3 data)) ! i"
  shows "(active s \<longrightarrow> active s') \<and> sint (accumulated_distance s) \<le> sint (accumulated_distance s')"
proof (cases "i = layer_of param1")
  case False
  then show ?thesis
    by (simp add: s_def s'_def handle_event_other_slot)
next
  case l: True
  have valid: "layer_of param1 < MAX_LAYERS"
    using i l by simp
  have inrange: "layer_of param1 < length (layers data)"
    using len valid by simp
  show ?thesis
  proof (cases "is_motion e")
    case False
    then show ?thesis
      by (simp add: s_def s'_def handle_event_not_motion)
  next
    case mot: True
    show ?thesis
    proof (cases "active (layers data ! layer_of param1)")
      case True
      from handle_event_active[OF valid True mot, of cfg now param2 param3] inrange True
      show ?thesis
        by (simp add: s_def s'_def l)
    next
      case inact: False
      show ?thesis
      proof (cases "idle_gate_closed cfg now data")
        case True
        with inact show ?thesis
          by (simp add: s_def s'_def handle_event_gated)
      next
        case False
        with fits valid mot inact have v: "- (2 ^ 31) < sint (val e)"
          and b: "sint (accumulated_distance (layers data ! layer_of param1)) + \<bar>sint (val e)\<bar> < 2 ^ 31"
          by (simp_all add: accumulation_fits_def)
        from handle_event_inactive_facts(5)[OF len valid inact False mot pend v b refl refl,
            of param2 param3] inact
        show ?thesis
          by (simp add: s_def s'_def l)
      qed
    qed
  qed
qed

text \<open>
  Claim C8, within the 32-bit range. In every state reached from initialisation, for
  every slot and every operation (motion sample, key event, timer expiry) whose
  addition to the accumulator, if it makes one, does not overflow: if the operation takes
  the slot from active to inactive its accumulated distance is 0 afterwards, and
  otherwise the accumulated distance does not decrease (it is never reset without such a
  transition; in particular it is non-decreasing while the slot stays inactive).
\<close>

theorem accumulator_reset_and_monotone:
  assumes "data = fst (run cfg ops threshold_temp_layer_init)" and "i < MAX_LAYERS"
    and "accumulation_fits cfg x data"
  shows "(active (layers data ! i) \<and> \<not> active (layers (fst (step cfg x data)) ! i) \<longrightarrow>
            accumulated_distance (layers (fst (step cfg x data)) ! i) = 0) \<and>
         (\<not> (active (layers data ! i) \<and> \<not> active (layers (fst (step cfg x data)) ! i)) \<longrightarrow>
            sint (accumulated_distance (layers data ! i)) \<le>
            sint (accumulated_distance (layers (fst (step cfg x data)) ! i)))"
proof -
  have shape: "length (layers data) = MAX_LAYERS" "pending_dx data = 0" "pending_dy data = 0"
    using run_shape[OF init_shape, of cfg ops] assms(1) by simp_all
  have inrange: "i < length (layers data)"
    using shape(1) assms(2) by simp
  show ?thesis
  proof (cases x)
    case (Motion now e param1 param2 param3)
    from handle_event_slot_change[OF shape(1) assms(2) shape(2,3) assms(3)[unfolded Motion]]
    show ?thesis
      unfolding Motion step.simps by blast
  next
    case (Key now eh)
    then show ?thesis
      using inrange
      by (auto simp: key_event_eq[OF shape(1)] reset_slot_def split: option.splits)
  next
    case (Fire w)
    then show ?thesis
      using shape(1) assms(2)
      by (cases "i = w") (auto simp: timer_fire_eq[OF shape(1)])
  qed
qed


text \<open>
  A key press and a timer expiry each take the active slot 0 to inactive with accumulated
  distance 0; a sample on the inactive slot 0 raises its accumulated distance.
\<close>

theorem accumulator_reset_and_monotone_witness:
  "active (layers two_active_slots ! 0) \<and>
   \<not> active (layers (fst (step example_config (Key 2000 (Some \<lparr>position = 4, state = True\<rparr>)) two_active_slots)) ! 0) \<and>
   accumulated_distance
     (layers (fst (step example_config (Key 2000 (Some \<lparr>position = 4, state = True\<rparr>)) two_active_slots)) ! 0) = 0 \<and>
   \<not> active (layers (fst (step example_config (Fire 0) two_active_slots)) ! 0) \<and>
   accumulated_distance (layers (fst (step example_config (Fire 0) two_active_slots)) ! 0) = 0 \<and>
   sint (accumulated_distance (layers threshold_temp_layer_init ! 0)) \<le>
   sint (accumulated_distance
     (layers (fst (step example_config (Motion 1000 (rel_x 60) 0 500 100) threshold_temp_layer_init)) ! 0))"
proof -
  have len: "length (layers two_active_slots) = MAX_LAYERS"
    by (simp add: two_active_slots_layers MAX_LAYERS_def)
  have i: "(0 :: nat) < MAX_LAYERS"
    by (simp add: MAX_LAYERS_def)
  have a: "active (layers two_active_slots ! 0)"
    by (simp add: two_active_slots_layers)
  have k: "\<not> active (layers (fst (step example_config (Key 2000 (Some \<lparr>position = 4, state = True\<rparr>))
      two_active_slots)) ! 0)"
    using a by (simp add: key_event_eq[OF len] example_config_def reset_slot_def two_active_slots_layers)
  have f: "\<not> active (layers (fst (step example_config (Fire 0) two_active_slots)) ! 0)"
    using a by (simp add: timer_fire_eq[OF len] MAX_LAYERS_def two_active_slots_layers)
  have m: "\<not> active (layers threshold_temp_layer_init ! 0)"
    by (simp add: threshold_temp_layer_init_def MAX_LAYERS_def)
  have fits: "accumulation_fits example_config (Motion 1000 (rel_x 60) 0 500 100) threshold_temp_layer_init"
    by (simp add: accumulation_fits_def rel_x_def threshold_temp_layer_init_def MAX_LAYERS_def layer_of_def)
  have r0: "threshold_temp_layer_init = fst (run example_config [] threshold_temp_layer_init)"
    by simp
  from accumulator_reset_and_monotone[OF two_active_slots_def i,
      of "Key 2000 (Some \<lparr>position = 4, state = True\<rparr>)"]
    accumulator_reset_and_monotone[OF two_active_slots_def i, of "Fire 0"]
    accumulator_reset_and_monotone[OF r0 i fits]
    a k f m
  show ?thesis
    by (simp add: accumulation_fits_def)
qed

text \<open>
  Claim C8 as stated fails when the accumulator overflows: with threshold 2147483647,
  slot 0 has accumulated 7 and is inactive; the sample 2147483647 wraps the accumulator
  around to -2147483642, and the slot is still inactive with a smaller accumulated
  distance.
\<close>

theorem accumulator_decreases_on_overflow:
  "\<not> active (layers (fst (run \<lparr>require_prior_idle_ms = 0, excluded_positions = []\<rparr>
      [Motion 0 (rel_y 7) 0 0 2147483647] threshold_temp_layer_init)) ! 0) \<and>
   sint (accumulated_distance (layers (fst (run \<lparr>require_prior_idle_ms = 0, excluded_positions = []\<rparr>
      [Motion 0 (rel_y 7) 0 0 2147483647] threshold_temp_layer_init)) ! 0)) = 7 \<and>
   \<not> active (layers (fst (step \<lparr>require_prior_idle_ms = 0, excluded_positions = []\<rparr>
      (Motion 0 (rel_y 2147483647) 0 0 2147483647)
      (fst (run \<lparr>require_prior_idle_ms = 0, excluded_positions = []\<rparr>
         [Motion 0 (rel_y 7) 0 0 2147483647] threshold_temp_layer_init)))) ! 0) \<and>
   sint (accumulated_distance (layers (fst (step \<lparr>require_prior_idle_ms = 0, excluded_positions = []\<rparr>
      (Motion 0 (rel_y 2147483647) 0 0 2147483647)
      (fst (run \<lparr>require_prior_idle_ms = 0, excluded_positions = []\<rparr>
         [Motion 0 (rel_y 7) 0 0 2147483647] threshold_temp_layer_init)))) ! 0)) = - 2147483642"
  by (simp add: eval_defs)

section \<open>Accumulation one axis at a time\<close>











end
